theory Spec2Isabelle
  imports Main
begin

section \<open>Python exceptions\<close>

text \<open>
  Every exception the modelled code can raise is a value; a function that may raise
  returns \<open>error + 'a\<close> with \<open>Inl\<close> for the exception. The constructors are the Python
  classes that the scripts, pandas, PyYAML and the standard library raise on the paths
  modelled here; \<open>KeyError\<close> carries the missing labels, \<open>IndexError\<close> nothing (its message
  differs between versions of numpy), the others a message or a name.
\<close>

datatype error =
    FileNotFoundError string
  | YAMLError string
  | KeyError "string list"
  | TypeError string
  | IndexError
  | UndefinedVariableError string
  | AttributeError string
  | ValueError string
  | OSError string
  | CapabilityError string

section \<open>Paths: \<open>os.path\<close> and \<open>pathlib\<close> on POSIX\<close>

text \<open>\<open>str.split(sep)\<close> for a one-character separator: never empty, keeps empty pieces.\<close>

fun split_on :: "char \<Rightarrow> string \<Rightarrow> string list" where
  "split_on c [] = [[]]"
| "split_on c (x # xs) =
     (if x = c then [] # split_on c xs
      else (case split_on c xs of
              [] \<Rightarrow> [[x]]
            | w # ws \<Rightarrow> (x # w) # ws))"

text \<open>
  A \<open>PurePosixPath\<close>: the root (\<open>''''\<close>, \<open>''/''\<close> or \<open>''//''\<close>) and the components.
  Parsing drops empty and \<open>.\<close> components; exactly two leading slashes are a root of
  their own.
\<close>

datatype path = Path (root: string) (parts: "string list")

definition path_root :: "string \<Rightarrow> string" where
  "path_root s =
     (if take 2 s = ''//'' \<and> take 3 s \<noteq> ''///'' then ''//''
      else if take 1 s = ''/'' then ''/''
      else '''')"

definition parse_path :: "string \<Rightarrow> path" where
  "parse_path s = Path (path_root s) (filter (\<lambda>p. p \<noteq> '''' \<and> p \<noteq> ''.'') (split_on CHR ''/'' s))"

fun join_with :: "string \<Rightarrow> string list \<Rightarrow> string" where
  "join_with s [] = []"
| "join_with s [x] = x"
| "join_with s (x # y # ys) = x @ s @ join_with s (y # ys)"

definition path_str :: "path \<Rightarrow> string" where
  "path_str p =
     (if root p = '''' \<and> parts p = [] then ''.''
      else root p @ join_with ''/'' (parts p))"

text \<open>\<open>Path.parent\<close>: the path without its last component; a path with none is its own parent.\<close>

definition parent :: "path \<Rightarrow> path" where
  "parent p = (if parts p = [] then p else Path (root p) (butlast (parts p)))"

text \<open>\<open>p / s\<close>: an absolute right operand replaces the left one.\<close>

definition truediv :: "path \<Rightarrow> string \<Rightarrow> path" where
  "truediv p s =
     (let q = parse_path s
      in if root q \<noteq> '''' then q else Path (root p) (parts p @ parts q))"

text \<open>\<open>Path.absolute()\<close>: a relative path is put under the working directory.\<close>

definition absolute :: "string \<Rightarrow> path \<Rightarrow> path" where
  "absolute cwd p =
     (if root p \<noteq> '''' then p
      else Path (root (parse_path cwd)) (parts (parse_path cwd) @ parts p))"

text \<open>\<open>os.path.basename\<close>: everything after the last slash.\<close>

definition basename :: "string \<Rightarrow> string" where
  "basename p = rev (takeWhile (\<lambda>c. c \<noteq> CHR ''/'') (rev p))"

text \<open>
  \<open>posixpath.join(a, *p)\<close>: a component that starts with a slash discards what was
  joined before it; a separator is added unless the path so far is empty or ends in one.
\<close>

fun os_path_join :: "string \<Rightarrow> string list \<Rightarrow> string" where
  "os_path_join path [] = path"
| "os_path_join path (b # bs) =
     (if take 1 b = ''/'' then os_path_join b bs
      else if path = [] \<or> last path = CHR ''/'' then os_path_join (path @ b) bs
      else os_path_join (path @ ''/'' @ b) bs)"

section \<open>Truthiness of the objects tested in \<open>cyto_paths.py\<close>\<close>

text \<open>
  \<open>git_path.exists\<close> without parentheses is the bound method, an object with neither
  \<open>__bool__\<close> nor \<open>__len__\<close>, hence true. \<open>path.exists()\<close> is the call, a \<open>bool\<close>
  that depends on the file system, given as the predicate \<open>fs\<close> on path strings.
\<close>

datatype pyobject = PyBool bool | PyBoundMethod path string

fun truth :: "pyobject \<Rightarrow> bool" where
  "truth (PyBool b) = b"
| "truth (PyBoundMethod p m) = True"

definition exists_attr :: "path \<Rightarrow> pyobject" where
  "exists_attr p = PyBoundMethod p ''exists''"

definition exists_call :: "(string \<Rightarrow> bool) \<Rightarrow> path \<Rightarrow> pyobject" where
  "exists_call fs p = PyBool (fs (path_str p))"

text \<open>
  \<open>get_cytosnake_package_path\<close>; \<open>pkg\<close> is \<open>cytosnake.__path__[0]\<close>. The guard is
  \<open>if not git_path.exists:\<close>.
\<close>

definition get_cytosnake_package_path :: "(string \<Rightarrow> bool) \<Rightarrow> string \<Rightarrow> error + path" where
  "get_cytosnake_package_path fs pkg =
     (let project_path = parent (parse_path pkg);
          git_path = truediv project_path ''.git''
      in if \<not> truth (exists_attr git_path)
         then Inl (FileNotFoundError ''Unable to find cytosnake package path'')
         else Inr project_path)"

text \<open>
  \<open>get_project_root\<close>, the sibling whose guard calls the method:
  \<open>if not project_folder.exists():\<close>. \<open>Path()\<close> is the path with no component.
\<close>

definition get_project_root :: "(string \<Rightarrow> bool) \<Rightarrow> string \<Rightarrow> error + path" where
  "get_project_root fs cwd =
     (let project_dir = absolute cwd (parse_path '''');
          project_folder = truediv project_dir ''.cytosnake''
      in if \<not> truth (exists_call fs project_folder)
         then Inl (FileNotFoundError ''Current directory is not a project folder'')
         else Inr project_dir)"

section \<open>Tables: the part of pandas the aggregation script uses\<close>

text \<open>
  A \<open>DataFrame\<close> is its column labels and its rows, a cell being the text it holds;
  numeric dtypes and missing values are not distinguished from their text. A frame read
  by pandas is rectangular; \<open>cell_at\<close> reads a cell by label and answers the empty text
  where a row is too short to have it.
\<close>

record dataframe =
  columns :: "string list"
  rows :: "string list list"

definition cell_at :: "string list \<Rightarrow> string list \<Rightarrow> string \<Rightarrow> string" where
  "cell_at cols r c = (case map_of (zip cols r) c of Some v \<Rightarrow> v | None \<Rightarrow> [])"

text \<open>
  \<open>df.query("col == @name")\<close> where the local \<open>name\<close> holds a list: pandas rewrites
  \<open>==\<close> against a list into membership, so a row is kept when its cell is one of the
  list's elements. An unknown column name is an \<open>UndefinedVariableError\<close>. The
  comparison is one of text with text: the column is one that pandas read as text. A
  column of digits alone is typed \<open>int64\<close> by \<open>read_csv\<close> and then equals no string; such
  a column is outside this model.
\<close>

definition query_eq_local :: "dataframe \<Rightarrow> string \<Rightarrow> string list \<Rightarrow> error + dataframe" where
  "query_eq_local df col vals =
     (if col \<in> set (columns df)
      then Inr (df\<lparr>rows := filter (\<lambda>r. cell_at (columns df) r col \<in> set vals) (rows df)\<rparr>)
      else Inl (UndefinedVariableError col))"

text \<open>\<open>df.<name>.values\<close>: the cells of a column, by attribute access.\<close>

definition getattr_values :: "dataframe \<Rightarrow> string \<Rightarrow> error + string list" where
  "getattr_values df name =
     (if name \<in> set (columns df)
      then Inr (map (\<lambda>r. cell_at (columns df) r name) (rows df))
      else Inl (AttributeError name))"

text \<open>\<open>values[0]\<close>.\<close>

definition values_first :: "string list \<Rightarrow> error + string" where
  "values_first vs =
     (case vs of
        [] \<Rightarrow> Inl (IndexError)
      | v # _ \<Rightarrow> Inr v)"

text \<open>
  \<open>left.merge(right, left_on=l, right_on=r)\<close>. No \<open>how\<close> is passed, so the join is the
  default one, \<open>inner\<close>: each left row is paired with every right row of the same key,
  in the order of the left rows, which is the order of pandas from 2.2 on (earlier
  versions give the same rows and put those of a repeated left key together). Both key
  columns hold text; the \<open>ValueError\<close> of pandas for key columns of different dtypes is
  outside this model. Labels that occur on both sides get the default
  suffixes \<open>_x\<close> and \<open>_y\<close>; the refusal by recent pandas of suffixed labels that collide
  with another label is not modelled. A missing key label is a \<open>KeyError\<close>.
\<close>

definition suffixed :: "string list \<Rightarrow> string \<Rightarrow> string \<Rightarrow> string" where
  "suffixed others suffix c = (if c \<in> set others then c @ suffix else c)"

definition merge_rows ::
  "string list \<Rightarrow> string \<Rightarrow> string list \<Rightarrow> string \<Rightarrow> string list list \<Rightarrow> string list list
     \<Rightarrow> string list list" where
  "merge_rows lcols left_on rcols right_on lrows rrows =
     concat (map (\<lambda>l. map (\<lambda>r. l @ r)
                          (filter (\<lambda>r. cell_at rcols r right_on = cell_at lcols l left_on) rrows))
                 lrows)"

definition df_merge :: "dataframe \<Rightarrow> dataframe \<Rightarrow> string \<Rightarrow> string \<Rightarrow> error + dataframe" where
  "df_merge left right left_on right_on =
     (if right_on \<notin> set (columns right) then Inl (KeyError [right_on])
      else if left_on \<notin> set (columns left) then Inl (KeyError [left_on])
      else Inr \<lparr>columns = map (suffixed (columns right) ''_x'') (columns left)
                          @ map (suffixed (columns left) ''_y'') (columns right),
                rows = merge_rows (columns left) left_on (columns right) right_on
                         (rows left) (rows right)\<rparr>)"

text \<open>
  \<open>df.drop(labels, axis="columns")\<close>: a label that is not a column is a \<open>KeyError\<close>
  naming the labels not found; otherwise every column with one of the labels goes.
\<close>

definition df_drop :: "dataframe \<Rightarrow> string list \<Rightarrow> error + dataframe" where
  "df_drop df labels =
     (let missing = filter (\<lambda>l. l \<notin> set (columns df)) labels
      in if missing \<noteq> [] then Inl (KeyError missing)
         else Inr \<lparr>columns = filter (\<lambda>c. c \<notin> set labels) (columns df),
                   rows = map (\<lambda>r. map snd (filter (\<lambda>cv. fst cv \<notin> set labels)
                                                       (zip (columns df) r)))
                              (rows df)\<rparr>)"

text \<open>Decimal text of an integer, as \<open>str\<close> and f-strings print it.\<close>

fun show_nat :: "nat \<Rightarrow> string" where
  "show_nat n =
     (if n < 10 then [''0123456789'' ! n]
      else show_nat (n div 10) @ [''0123456789'' ! (n mod 10)])"

declare show_nat.simps [simp del]

definition show_int :: "int \<Rightarrow> string" where
  "show_int i = (if i < 0 then ''-'' @ show_nat (nat (- i)) else show_nat (nat i))"

text \<open>
  \<open>df.to_csv(path, sep=..., header=..., index=...)\<close>: the records handed to the CSV
  writer. With \<open>header\<close> the first record is the column labels; with \<open>index\<close> every
  record starts with one more field, the row number (an unnamed label in the header).
  How the writer quotes a field is not modelled: a file is the list of its records and
  its delimiter.
\<close>

definition to_csv :: "dataframe \<Rightarrow> bool \<Rightarrow> bool \<Rightarrow> string list list" where
  "to_csv df header index =
     (if header then [(if index then [[]] else []) @ columns df] else [])
     @ map (\<lambda>(i, r). (if index then [show_nat i] else []) @ r)
           (zip [0 ..< length (rows df)] (rows df))"

section \<open>YAML documents\<close>

text \<open>
  What \<open>yaml.safe_load\<close> returns. A float is kept as its text; no arithmetic is done on
  it. A mapping is a Python \<open>dict\<close>, written as its items, one for each key;
  \<open>py_getitem\<close> is \<open>obj[key]\<close> for a string key: a \<open>KeyError\<close> on a dict without the
  key, a \<open>TypeError\<close> on anything that is not a dict. Dates, binaries and sets, which
  answer that \<open>TypeError\<close> as well, have no constructor here.
\<close>

datatype yaml =
    YNull
  | YBool bool
  | YInt int
  | YFloat string
  | YStr string
  | YSeq "yaml list"
  | YMap "(yaml \<times> yaml) list"

fun py_getitem :: "yaml \<Rightarrow> string \<Rightarrow> error + yaml" where
  "py_getitem (YMap items) key =
     (case map_of items (YStr key) of
        None \<Rightarrow> Inl (KeyError [key])
      | Some v \<Rightarrow> Inr v)"
| "py_getitem YNull key = Inl (TypeError ''NoneType object is not subscriptable'')"
| "py_getitem (YBool b) key = Inl (TypeError ''bool object is not subscriptable'')"
| "py_getitem (YInt i) key = Inl (TypeError ''int object is not subscriptable'')"
| "py_getitem (YFloat f) key = Inl (TypeError ''float object is not subscriptable'')"
| "py_getitem (YStr s) key = Inl (TypeError ''string indices must be integers'')"
| "py_getitem (YSeq xs) key = Inl (TypeError ''list indices must be integers or slices, not str'')"


section \<open>The world outside the script\<close>

text \<open>
  The script reads files and calls pycytominer. What they answer is a parameter:
  \<open>open_read\<close> is \<open>open(path, "r")\<close> and the text read from it, \<open>safe_load\<close> is
  \<open>yaml.safe_load\<close> on that text, \<open>read_csv\<close> is \<open>pd.read_csv\<close> on a path,
  \<open>SingleCells\<close> is the constructor (the error it raises, if any), \<open>count_cells\<close> and
  \<open>aggregate_profiles\<close> are the two methods of the object built, and \<open>to_csv_error\<close>
  is the error the file system answers when the cell-count file is written, if any.
\<close>

record single_cells =
  sql_url :: string
  kwargs :: "(string \<times> yaml) list"

record world =
  cwd :: string
  open_read :: "string \<Rightarrow> error + string"
  safe_load :: "string \<Rightarrow> error + yaml"
  read_csv :: "string \<Rightarrow> error + dataframe"
  SingleCells :: "single_cells \<Rightarrow> error option"
  count_cells :: "single_cells \<Rightarrow> error + dataframe"
  aggregate_profiles :: "single_cells \<Rightarrow> string \<Rightarrow> string \<Rightarrow> error option"
  to_csv_error :: "string \<Rightarrow> error option"

text \<open>What the job does to the outside, in order.\<close>

datatype effect =
    Print string
  | ToCsv string char "string list list"
  | AggregateProfiles single_cells string string

section \<open>\<open>aggregate\<close> in \<open>aggregate_cells.py\<close>\<close>

text \<open>Lines 42 to 47: the configuration.\<close>

definition load_config :: "world \<Rightarrow> string \<Rightarrow> error + yaml" where
  "load_config w config =
     (let aggregate_config_path = absolute (cwd w) (parse_path config)
      in case open_read w (path_str aggregate_config_path) of
           Inl e \<Rightarrow> Inl e
         | Inr yaml_contents \<Rightarrow>
             (case safe_load w yaml_contents of
                Inl e \<Rightarrow> Inl e
              | Inr doc \<Rightarrow>
                  (case py_getitem doc ''single_cell_config'' of
                     Inl e \<Rightarrow> Inl e
                   | Inr single_cell_config \<Rightarrow> py_getitem single_cell_config ''params'')))"

text \<open>\<open>str.rsplit(sep, 1)\<close>: a list of one or two strings, split at the last separator.\<close>

definition rsplit1 :: "char \<Rightarrow> string \<Rightarrow> string list" where
  "rsplit1 c s =
     (if c \<in> set s
      then [rev (tl (dropWhile (\<lambda>x. x \<noteq> c) (rev s))), rev (takeWhile (\<lambda>x. x \<noteq> c) (rev s))]
      else [s])"

text \<open>Line 50: \<open>plate = os.path.basename(sql_file).rsplit(".", 1)\<close>.\<close>

definition plate_of :: "string \<Rightarrow> string list" where
  "plate_of sql_file = rsplit1 CHR ''.'' (basename sql_file)"

text \<open>Lines 52 to 54: the rows of the barcode table selected for the plate.\<close>

definition select_barcode_rows :: "dataframe \<Rightarrow> string \<Rightarrow> error + dataframe" where
  "select_barcode_rows barcode_platemap_df sql_file =
     query_eq_local barcode_platemap_df ''Assay_Plate_Barcode'' (plate_of sql_file)"

definition lookup_platemap :: "dataframe \<Rightarrow> string \<Rightarrow> error + string" where
  "lookup_platemap barcode_platemap_df sql_file =
     (case select_barcode_rows barcode_platemap_df sql_file of
        Inl e \<Rightarrow> Inl e
      | Inr selected \<Rightarrow>
          (case getattr_values selected ''Plate_Map_Name'' of
             Inl e \<Rightarrow> Inl e
           | Inr vs \<Rightarrow> values_first vs))"

text \<open>Line 55: the platemap file of a platemap name.\<close>

definition platemap_file_of :: "string \<Rightarrow> string \<Rightarrow> string" where
  "platemap_file_of metadata_dir platemap =
     os_path_join metadata_dir [''platemap'', platemap @ ''.csv'']"

text \<open>Lines 50 to 56.\<close>

definition load_platemap :: "world \<Rightarrow> string \<Rightarrow> string \<Rightarrow> string \<Rightarrow> error + dataframe" where
  "load_platemap w sql_file metadata_dir barcode_path =
     (case read_csv w barcode_path of
        Inl e \<Rightarrow> Inl e
      | Inr barcode_platemap_df \<Rightarrow>
          (case lookup_platemap barcode_platemap_df sql_file of
             Inl e \<Rightarrow> Inl e
           | Inr platemap \<Rightarrow> read_csv w (platemap_file_of metadata_dir platemap)))"

text \<open>
  Lines 61 to 77: the keyword arguments of \<open>SingleCells\<close>, each \<open>aggregate_configs[key]\<close>
  evaluated in the order written.
\<close>

fun config_kwargs :: "yaml \<Rightarrow> string list \<Rightarrow> error + (string \<times> yaml) list" where
  "config_kwargs cfg [] = Inr []"
| "config_kwargs cfg (k # ks) =
     (case py_getitem cfg k of
        Inl e \<Rightarrow> Inl e
      | Inr v \<Rightarrow>
          (case config_kwargs cfg ks of
             Inl e \<Rightarrow> Inl e
           | Inr kvs \<Rightarrow> Inr ((k, v) # kvs)))"

definition config_keys :: "string list" where
  "config_keys =
     [''strata'', ''image_cols'', ''aggregation_operation'', ''output_file'',
      ''merge_cols'', ''add_image_features'', ''image_feature_categories'',
      ''features'', ''load_image_data'', ''subsample_frac'',
      ''subsampling_random_state'', ''fields_of_view'']"

definition single_cells_kwargs :: "yaml \<Rightarrow> error + (string \<times> yaml) list" where
  "single_cells_kwargs aggregate_configs =
     (case config_kwargs aggregate_configs config_keys of
        Inl e \<Rightarrow> Inl e
      | Inr config_kw \<Rightarrow>
          (case config_kwargs aggregate_configs [''object_feature''] of
             Inl e \<Rightarrow> Inl e
           | Inr object_kw \<Rightarrow>
               Inr (config_kw @ [(''fields_of_view_feature'', YStr ''Image_Metadata_Well'')]
                    @ object_kw)))"

text \<open>Lines 84 to 86: the merge and the drop.\<close>

definition cell_count_output :: "dataframe \<Rightarrow> dataframe \<Rightarrow> error + dataframe" where
  "cell_count_output cell_count_df platemap_df =
     (case df_merge cell_count_df platemap_df ''Image_Metadata_Well'' ''well_position'' of
        Inl e \<Rightarrow> Inl e
      | Inr merged \<Rightarrow> df_drop merged [''WellRow'', ''WellCol'', ''well_position''])"

text \<open>
  Lines 79 to 92. An error leaves the effects done before it; a write that fails leaves
  no effect.
\<close>

definition write_outputs ::
  "world \<Rightarrow> single_cells \<Rightarrow> dataframe \<Rightarrow> string \<Rightarrow> string \<Rightarrow> (error + unit) \<times> effect list" where
  "write_outputs w single_cell_profile platemap_df cell_count_out aggregate_file_out =
     (let p1 = Print ''Counting cells within each well'';
          p2 = Print (''Saving cell counts in: '' @ cell_count_out);
          p3 = Print ''aggregating cells''
      in case count_cells w single_cell_profile of
           Inl e \<Rightarrow> (Inl e, [p1])
         | Inr cell_count_df \<Rightarrow>
             (case cell_count_output cell_count_df platemap_df of
                Inl e \<Rightarrow> (Inl e, [p1, p2])
              | Inr out \<Rightarrow>
                  (case to_csv_error w cell_count_out of
                     Some e \<Rightarrow> (Inl e, [p1, p2])
                   | None \<Rightarrow>
                       (let c = ToCsv cell_count_out (CHR 0x09) (to_csv out True False)
                        in case aggregate_profiles w single_cell_profile aggregate_file_out ''gzip'' of
                             Some e \<Rightarrow> (Inl e, [p1, p2, c, p3])
                           | None \<Rightarrow>
                               (Inr (), [p1, p2, c, p3,
                                  AggregateProfiles single_cell_profile aggregate_file_out ''gzip''])))))"

text \<open>Lines 49 to 92, once \<open>aggregate_configs\<close> is loaded.\<close>

definition aggregate_from_config ::
  "world \<Rightarrow> yaml \<Rightarrow> string \<Rightarrow> string \<Rightarrow> string \<Rightarrow> string \<Rightarrow> string
     \<Rightarrow> (error + unit) \<times> effect list" where
  "aggregate_from_config w aggregate_configs sql_file metadata_dir barcode_path cell_count_out
       aggregate_file_out =
     (case load_platemap w sql_file metadata_dir barcode_path of
        Inl e \<Rightarrow> (Inl e, [])
      | Inr platemap_df \<Rightarrow>
          (case single_cells_kwargs aggregate_configs of
             Inl e \<Rightarrow> (Inl e, [])
           | Inr kw \<Rightarrow>
               (let single_cell_profile = \<lparr>sql_url = ''sqlite:///'' @ sql_file, kwargs = kw\<rparr>
                in case SingleCells w single_cell_profile of
                     Some e \<Rightarrow> (Inl e, [])
                   | None \<Rightarrow>
                       write_outputs w single_cell_profile platemap_df cell_count_out
                         aggregate_file_out)))"

definition aggregate ::
  "world \<Rightarrow> string \<Rightarrow> string \<Rightarrow> string \<Rightarrow> string \<Rightarrow> string \<Rightarrow> string
     \<Rightarrow> (error + unit) \<times> effect list" where
  "aggregate w sql_file metadata_dir barcode_path cell_count_out aggregate_file_out config =
     (case load_config w config of
        Inl e \<Rightarrow> (Inl e, [])
      | Inr aggregate_configs \<Rightarrow>
          aggregate_from_config w aggregate_configs sql_file metadata_dir barcode_path
            cell_count_out aggregate_file_out)"

section \<open>The dispatcher: the \<open>__main__\<close> block\<close>

text \<open>
  \<open>itertools.repeat(x)\<close>: an iterator that answers \<open>x\<close> at every \<open>next\<close> and never
  ends.
\<close>

datatype 'a repeat = Repeat 'a

fun next_of :: "'a repeat \<Rightarrow> 'a \<times> 'a repeat" where
  "next_of (Repeat x) = (x, Repeat x)"

text \<open>
  \<open>zip\<close> of the three per-plate lists with the three \<open>itertools.repeat\<close> iterators, in
  the order of line 107: it stops at the first list that ends.
\<close>

fun zip6 ::
  "'a list \<Rightarrow> 'b repeat \<Rightarrow> 'c repeat \<Rightarrow> 'd list \<Rightarrow> 'e list \<Rightarrow> 'f repeat
     \<Rightarrow> ('a \<times> 'b \<times> 'c \<times> 'd \<times> 'e \<times> 'f) list" where
  "zip6 (a # as) bs cs (d # ds) (e # es) fs =
     (a, fst (next_of bs), fst (next_of cs), d, e, fst (next_of fs))
       # zip6 as (snd (next_of bs)) (snd (next_of cs)) ds es (snd (next_of fs))"
| "zip6 _ _ _ _ _ _ = []"

record snakemake =
  sql_files :: "string list"
  cell_counts :: "string list"
  aggregate_profile :: "string list"
  metadata :: string
  barcodes :: string
  aggregate_config :: string
  threads :: int

type_synonym job = "string \<times> string \<times> string \<times> string \<times> string \<times> string"

text \<open>Lines 98 to 108.\<close>

definition inputs :: "snakemake \<Rightarrow> job list" where
  "inputs sm =
     zip6 (sql_files sm) (Repeat (metadata sm)) (Repeat (barcodes sm))
          (cell_counts sm) (aggregate_profile sm) (Repeat (aggregate_config sm))"

text \<open>Lines 111 to 116: the message printed, if any, and the worker count.\<close>

definition warning_text :: "int \<Rightarrow> nat \<Rightarrow> string" where
  "warning_text n_cores n =
     ''WARNING: number of specified cores ('' @ show_int n_cores
     @ '') exceeds number of inputs ('' @ show_nat n
     @ ''), defaulting to '' @ show_nat n"

definition clamp_cores :: "int \<Rightarrow> nat \<Rightarrow> string option \<times> int" where
  "clamp_cores n_cores n =
     (if n_cores > int n then (Some (warning_text n_cores n), int n) else (None, n_cores))"

text \<open>
  Lines 119 to 120. \<open>mp.Pool(processes=n)\<close> raises a \<open>ValueError\<close> when \<open>n < 1\<close>;
  otherwise every tuple of \<open>inputs\<close> is handed to \<open>starmap\<close>. How the worker processes
  interleave is not modelled: the dispatch is the message, the worker count and the
  jobs submitted.
\<close>

record dispatch =
  printed :: "string option"
  processes :: int
  submitted :: "error + job list"

definition main :: "snakemake \<Rightarrow> dispatch" where
  "main sm =
     (let (warning, n_cores) = clamp_cores (threads sm) (length (inputs sm))
      in \<lparr>printed = warning,
          processes = n_cores,
          submitted = (if n_cores < 1
                       then Inl (ValueError ''Number of processes must be at least 1'')
                       else Inr (inputs sm))\<rparr>)"

section \<open>A plate, its tables and its world\<close>

text \<open>
  The inputs on which the theorems below are evaluated: one plate \<open>PlateA\<close> whose barcode
  row names the platemap \<open>MapX\<close>, two wells, and a world that holds a configuration, a
  broken one and an empty one.
\<close>

definition example_params :: yaml where
  "example_params =
     YMap [(YStr ''strata'', YSeq [YStr ''Image_Metadata_Plate'', YStr ''Image_Metadata_Well'']),
           (YStr ''image_cols'', YSeq [YStr ''TableNumber'', YStr ''ImageNumber'']),
           (YStr ''aggregation_operation'', YStr ''median''),
           (YStr ''output_file'', YStr ''none''),
           (YStr ''merge_cols'', YSeq [YStr ''TableNumber'', YStr ''ImageNumber'']),
           (YStr ''add_image_features'', YBool False),
           (YStr ''image_feature_categories'', YNull),
           (YStr ''features'', YStr ''infer''),
           (YStr ''load_image_data'', YBool True),
           (YStr ''subsample_frac'', YInt 1),
           (YStr ''subsampling_random_state'', YStr ''none''),
           (YStr ''fields_of_view'', YStr ''all''),
           (YStr ''object_feature'', YStr ''Metadata_ObjectNumber'')]"

definition example_doc :: yaml where
  "example_doc = YMap [(YStr ''single_cell_config'', YMap [(YStr ''params'', example_params)])]"

definition example_single_cells :: single_cells where
  "example_single_cells =
     \<lparr>sql_url = ''sqlite:///data/PlateA.sqlite'',
      kwargs =
        [(''strata'', YSeq [YStr ''Image_Metadata_Plate'', YStr ''Image_Metadata_Well'']),
         (''image_cols'', YSeq [YStr ''TableNumber'', YStr ''ImageNumber'']),
         (''aggregation_operation'', YStr ''median''),
         (''output_file'', YStr ''none''),
         (''merge_cols'', YSeq [YStr ''TableNumber'', YStr ''ImageNumber'']),
         (''add_image_features'', YBool False),
         (''image_feature_categories'', YNull),
         (''features'', YStr ''infer''),
         (''load_image_data'', YBool True),
         (''subsample_frac'', YInt 1),
         (''subsampling_random_state'', YStr ''none''),
         (''fields_of_view'', YStr ''all''),
         (''fields_of_view_feature'', YStr ''Image_Metadata_Well''),
         (''object_feature'', YStr ''Metadata_ObjectNumber'')]\<rparr>"

definition example_barcodes :: dataframe where
  "example_barcodes =
     \<lparr>columns = [''Assay_Plate_Barcode'', ''Plate_Map_Name''], rows = [[''PlateA'', ''MapX'']]\<rparr>"

definition example_platemap :: dataframe where
  "example_platemap =
     \<lparr>columns = [''well_position'', ''WellRow'', ''WellCol'', ''treatment''],
      rows = [[''A01'', ''A'', ''1'', ''DMSO''], [''A02'', ''A'', ''2'', ''drug'']]\<rparr>"

definition example_counts :: dataframe where
  "example_counts =
     \<lparr>columns = [''Image_Metadata_Well'', ''cell_count''],
      rows = [[''A01'', ''120''], [''A02'', ''98'']]\<rparr>"

definition example_world :: world where
  "example_world =
     \<lparr>cwd = ''/work'',
      open_read = (\<lambda>p. if p = ''/work/configs/aggregate.yaml'' then Inr ''single_cell_config: ...''
                        else if p = ''/work/configs/broken.yaml'' then Inr ''{''
                        else if p = ''/work/configs/empty.yaml'' then Inr []
                        else Inl (FileNotFoundError p)),
      safe_load = (\<lambda>t. if t = ''single_cell_config: ...'' then Inr example_doc
                        else if t = [] then Inr YNull
                        else Inl (YAMLError ''while parsing a flow node'')),
      read_csv = (\<lambda>p. if p = ''barcode_platemap.csv'' then Inr example_barcodes
                       else if p = ''metadata/platemap/MapX.csv'' then Inr example_platemap
                       else Inl (FileNotFoundError p)),
      SingleCells = (\<lambda>sc. None),
      count_cells = (\<lambda>sc. Inr example_counts),
      aggregate_profiles = (\<lambda>sc output_file compression. None),
      to_csv_error = (\<lambda>p. None)\<rparr>"

text \<open>A barcode table with a row for the file extension before the row of the plate.\<close>

definition swapped_barcodes :: dataframe where
  "swapped_barcodes =
     \<lparr>columns = [''Assay_Plate_Barcode'', ''Plate_Map_Name''],
      rows = [[''sqlite'', ''MapZ''], [''PlateA'', ''MapX'']]\<rparr>"

text \<open>
  A barcode table whose only row is named after the file extension, and the example
  world reading it; the example world reading the table with the swapped rows. In both
  the platemap file of \<open>MapX\<close> is present and no other.
\<close>

definition extension_barcodes :: dataframe where
  "extension_barcodes =
     \<lparr>columns = [''Assay_Plate_Barcode'', ''Plate_Map_Name''], rows = [[''sqlite'', ''MapX'']]\<rparr>"

definition extension_world :: world where
  "extension_world =
     example_world
       \<lparr>read_csv := (\<lambda>p. if p = ''barcode_platemap.csv'' then Inr extension_barcodes
                          else if p = ''metadata/platemap/MapX.csv'' then Inr example_platemap
                          else Inl (FileNotFoundError p))\<rparr>"

definition swapped_world :: world where
  "swapped_world =
     example_world
       \<lparr>read_csv := (\<lambda>p. if p = ''barcode_platemap.csv'' then Inr swapped_barcodes
                          else if p = ''metadata/platemap/MapX.csv'' then Inr example_platemap
                          else Inl (FileNotFoundError p))\<rparr>"

text \<open>Cell counts with a well, \<open>B07\<close>, that the platemap does not have.\<close>

definition unmatched_counts :: dataframe where
  "unmatched_counts =
     \<lparr>columns = [''Image_Metadata_Well'', ''cell_count''],
      rows = [[''A01'', ''120''], [''B07'', ''3'']]\<rparr>"

text \<open>Five plates and ten threads; three plates with output lists of other lengths.\<close>

definition five_plates :: snakemake where
  "five_plates =
     \<lparr>sql_files = [''p1.sqlite'', ''p2.sqlite'', ''p3.sqlite'', ''p4.sqlite'', ''p5.sqlite''],
      cell_counts = [''p1.tsv'', ''p2.tsv'', ''p3.tsv'', ''p4.tsv'', ''p5.tsv''],
      aggregate_profile = [''p1.gz'', ''p2.gz'', ''p3.gz'', ''p4.gz'', ''p5.gz''],
      metadata = ''metadata'',
      barcodes = ''barcode_platemap.csv'',
      aggregate_config = ''configs/aggregate.yaml'',
      threads = 10\<rparr>"

definition uneven_plates :: snakemake where
  "uneven_plates =
     \<lparr>sql_files = [''p1.sqlite'', ''p2.sqlite'', ''p3.sqlite''],
      cell_counts = [''p1.tsv'', ''p2.tsv''],
      aggregate_profile = [''p1.gz'', ''p2.gz'', ''p3.gz'', ''p4.gz''],
      metadata = ''metadata'',
      barcodes = ''barcode_platemap.csv'',
      aggregate_config = ''configs/aggregate.yaml'',
      threads = 2\<rparr>"

section \<open>The package path lookup\<close>

lemma get_project_root_raises:
  "get_project_root (\<lambda>p. False) ''/home/user/proj'' =
     Inl (FileNotFoundError ''Current directory is not a project folder'')"
  by (simp add: get_project_root_def exists_call_def Let_def)

text \<open>
  C10. \<open>get_cytosnake_package_path\<close> never raises its documented
  \<open>FileNotFoundError\<close>: the guard tests the bound method \<open>exists\<close>, which is true
  whatever the file system holds, so for every file system and every package directory
  the result is the parent of the package directory, and no error is returned.
\<close>

theorem get_cytosnake_package_path_never_raises:
  "get_cytosnake_package_path fs pkg = Inr (parent (parse_path pkg))
   \<and> get_cytosnake_package_path fs pkg \<noteq> Inl e"
  by (simp add: get_cytosnake_package_path_def exists_attr_def Let_def)

section \<open>The plate identifier and the barcode lookup\<close>

text \<open>
  What line 50 computes: with a dot in the base name, the list of the stem and the
  extension; without one, the list of the base name alone.
\<close>

lemma plate_of_extension:
  assumes "CHR ''.'' \<in> set (basename sql_file)"
  shows "\<exists>stem ext. plate_of sql_file = [stem, ext]
           \<and> basename sql_file = stem @ ''.'' @ ext \<and> CHR ''.'' \<notin> set ext"
proof -
  let ?b = "basename sql_file"
  let ?ext = "rev (takeWhile (\<lambda>x. x \<noteq> CHR ''.'') (rev ?b))"
  let ?stem = "rev (tl (dropWhile (\<lambda>x. x \<noteq> CHR ''.'') (rev ?b)))"
  have ne: "dropWhile (\<lambda>x. x \<noteq> CHR ''.'') (rev ?b) \<noteq> []"
    using assms by (simp add: dropWhile_eq_Nil_conv)
  then have hd: "hd (dropWhile (\<lambda>x. x \<noteq> CHR ''.'') (rev ?b)) = CHR ''.''"
    using hd_dropWhile[of "\<lambda>x. x \<noteq> CHR ''.''" "rev ?b"] by simp
  have "rev ?b = takeWhile (\<lambda>x. x \<noteq> CHR ''.'') (rev ?b) @ dropWhile (\<lambda>x. x \<noteq> CHR ''.'') (rev ?b)"
    by simp
  also have "dropWhile (\<lambda>x. x \<noteq> CHR ''.'') (rev ?b)
             = CHR ''.'' # tl (dropWhile (\<lambda>x. x \<noteq> CHR ''.'') (rev ?b))"
    using ne hd by (metis list.collapse)
  finally have "rev (rev ?b) = rev (takeWhile (\<lambda>x. x \<noteq> CHR ''.'') (rev ?b)
                  @ CHR ''.'' # tl (dropWhile (\<lambda>x. x \<noteq> CHR ''.'') (rev ?b)))"
    by simp
  then have split: "?b = ?stem @ ''.'' @ ?ext"
    by simp
  have "CHR ''.'' \<notin> set ?ext"
    using set_takeWhileD[of "CHR ''.''" "\<lambda>x. x \<noteq> CHR ''.''" "rev ?b"] by auto
  moreover have "plate_of sql_file = [?stem, ?ext]"
    using assms by (simp add: plate_of_def rsplit1_def)
  ultimately show ?thesis using split by blast
qed

lemma plate_of_no_extension:
  "CHR ''.'' \<notin> set (basename sql_file) \<Longrightarrow> plate_of sql_file = [basename sql_file]"
  by (simp add: plate_of_def rsplit1_def)

lemma select_barcode_rows_result:
  assumes "''Assay_Plate_Barcode'' \<in> set (columns df)"
  shows "select_barcode_rows df sql_file =
           Inr (df\<lparr>rows := filter (\<lambda>r. cell_at (columns df) r ''Assay_Plate_Barcode''
                                          \<in> set (plate_of sql_file)) (rows df)\<rparr>)"
  using assms by (simp add: select_barcode_rows_def query_eq_local_def)

lemma lookup_platemap_first:
  assumes "''Assay_Plate_Barcode'' \<in> set (columns df)"
      and "''Plate_Map_Name'' \<in> set (columns df)"
  shows "lookup_platemap df sql_file =
           (case find (\<lambda>r. cell_at (columns df) r ''Assay_Plate_Barcode'' \<in> set (plate_of sql_file))
                      (rows df) of
              None \<Rightarrow> Inl (IndexError)
            | Some r \<Rightarrow> Inr (cell_at (columns df) r ''Plate_Map_Name''))"
proof -
  have "values_first (map f (filter P xs)) =
          (case find P xs of
             None \<Rightarrow> Inl (IndexError)
           | Some r \<Rightarrow> Inr (f r))" for f :: "string list \<Rightarrow> string" and P xs
    by (induction xs) (simp_all add: values_first_def)
  then show ?thesis
    using assms
    by (simp add: lookup_platemap_def select_barcode_rows_result getattr_values_def)
qed

text \<open>
  C1. The plate identifier used for the barcode lookup is the base file name without its
  final extension, and the rows selected are exactly those whose \<open>Assay_Plate_Barcode\<close>
  equals it. The code keeps the whole result of \<open>rsplit\<close>, the list of stem and
  extension, and the query selects the rows whose barcode is either of them: for
  \<open>data/PlateA.sqlite\<close> and a barcode table with a row \<open>sqlite\<close> before the row
  \<open>PlateA\<close>, both rows are selected and the platemap taken is that of the row \<open>sqlite\<close>.
\<close>

theorem plate_lookup_takes_extension_row:
  "plate_of ''data/PlateA.sqlite'' = [''PlateA'', ''sqlite'']
   \<and> select_barcode_rows swapped_barcodes ''data/PlateA.sqlite'' = Inr swapped_barcodes
   \<and> lookup_platemap swapped_barcodes ''data/PlateA.sqlite'' = Inr ''MapZ''"
  by (simp add: plate_of_def rsplit1_def basename_def select_barcode_rows_def query_eq_local_def
        swapped_barcodes_def cell_at_def lookup_platemap_def getattr_values_def values_first_def)

section \<open>The merge, the drop and the cell-count file\<close>

lemma to_csv_header_no_index: "to_csv df True False = columns df # rows df"
proof -
  have "map (\<lambda>(i, r). r) (zip [0 ..< length xs] xs) = xs" for xs :: "string list list"
    by (simp add: case_prod_unfold map_snd_zip)
  then show ?thesis
    by (simp add: to_csv_def)
qed

lemma df_drop_result:
  assumes "df_drop df labels = Inr out"
  shows "columns out = filter (\<lambda>c. c \<notin> set labels) (columns df)"
    and "length (rows out) = length (rows df)"
    and "set labels \<subseteq> set (columns df)"
  using assms by (auto simp: df_drop_def Let_def filter_empty_conv split: if_splits)

lemma df_merge_result:
  assumes "df_merge left right left_on right_on = Inr m"
  shows "rows m = merge_rows (columns left) left_on (columns right) right_on (rows left) (rows right)"
    and "left_on \<in> set (columns left)"
    and "right_on \<in> set (columns right)"
  using assms by (auto simp: df_merge_def split: if_splits)

lemma length_merge_rows_one_to_one:
  assumes "\<forall>l \<in> set lrows. length (filter (\<lambda>r. cell_at rcols r right_on = cell_at lcols l left_on) rrows) = 1"
  shows "length (merge_rows lcols left_on rcols right_on lrows rrows) = length lrows"
  using assms by (induction lrows) (simp_all add: merge_rows_def)

lemma set_merge_rows:
  "set (merge_rows lcols left_on rcols right_on lrows rrows) =
     {l @ r | l r. l \<in> set lrows \<and> r \<in> set rrows
                   \<and> cell_at rcols r right_on = cell_at lcols l left_on}"
  by (auto simp: merge_rows_def)

text \<open>
  For a platemap with the three columns, counts with the well column and no label in
  common, the merge and the drop succeed.
\<close>

lemma cell_count_output_succeeds:
  assumes "''Image_Metadata_Well'' \<in> set (columns cc)"
      and "{''well_position'', ''WellRow'', ''WellCol''} \<subseteq> set (columns pm)"
      and "set (columns cc) \<inter> set (columns pm) = {}"
  shows "\<exists>out. cell_count_output cc pm = Inr out"
proof -
  have "suffixed (columns cc) ''_y'' c = c" if "c \<in> set (columns pm)" for c
    using that assms(3) by (auto simp: suffixed_def)
  then have "map (suffixed (columns cc) ''_y'') (columns pm) = columns pm"
    by (simp add: map_idI)
  then show ?thesis
    using assms(1,2)
    by (simp add: cell_count_output_def df_merge_def df_drop_def)
qed

text \<open>Whatever \<open>aggregate\<close> writes as CSV is the cell-count table of lines 84 to 87.\<close>

lemma aggregate_writes_cell_counts:
  assumes "ToCsv p sep recs \<in> set (snd (aggregate w sql_file metadata_dir barcode_path
                                            cell_count_out aggregate_file_out config))"
  shows "\<exists>cfg pm kw cc out.
           load_config w config = Inr cfg
         \<and> load_platemap w sql_file metadata_dir barcode_path = Inr pm
         \<and> single_cells_kwargs cfg = Inr kw
         \<and> count_cells w \<lparr>sql_url = ''sqlite:///'' @ sql_file, kwargs = kw\<rparr> = Inr cc
         \<and> cell_count_output cc pm = Inr out
         \<and> p = cell_count_out \<and> sep = CHR 0x09 \<and> recs = to_csv out True False"
  using assms
  by (auto simp: aggregate_def aggregate_from_config_def write_outputs_def Let_def
           split: sum.splits option.splits)

subsection \<open>The example plate, evaluated\<close>

lemma example_cell_count_output:
  "cell_count_output example_counts example_platemap
     = Inr \<lparr>columns = [''Image_Metadata_Well'', ''cell_count'', ''treatment''],
             rows = [[''A01'', ''120'', ''DMSO''], [''A02'', ''98'', ''drug'']]\<rparr>"
  by (simp add: example_counts_def example_platemap_def cell_count_output_def df_merge_def
        merge_rows_def suffixed_def cell_at_def df_drop_def)

lemma example_load_config:
  "load_config example_world ''configs/aggregate.yaml'' = Inr example_params"
  by (simp add: load_config_def example_world_def example_doc_def absolute_def parse_path_def
        path_root_def path_str_def)

lemma example_kwargs:
  "single_cells_kwargs example_params = Inr (kwargs example_single_cells)"
  by (simp add: single_cells_kwargs_def config_keys_def example_params_def
        example_single_cells_def)

lemma example_read_barcodes:
  "read_csv example_world ''barcode_platemap.csv'' = Inr example_barcodes"
  by (simp add: example_world_def)

lemma example_load_platemap:
  "load_platemap example_world ''data/PlateA.sqlite'' ''metadata'' ''barcode_platemap.csv''
     = Inr example_platemap"
  by (simp add: load_platemap_def example_world_def example_barcodes_def lookup_platemap_def
        select_barcode_rows_def query_eq_local_def plate_of_def rsplit1_def basename_def
        cell_at_def getattr_values_def values_first_def platemap_file_of_def)

lemma example_aggregate:
  "aggregate example_world ''data/PlateA.sqlite'' ''metadata'' ''barcode_platemap.csv''
       ''out/PlateA_counts.tsv'' ''out/PlateA.csv.gz'' ''configs/aggregate.yaml''
     = (Inr (),
        [Print ''Counting cells within each well'',
         Print ''Saving cell counts in: out/PlateA_counts.tsv'',
         ToCsv ''out/PlateA_counts.tsv'' (CHR 0x09)
           [[''Image_Metadata_Well'', ''cell_count'', ''treatment''],
            [''A01'', ''120'', ''DMSO''], [''A02'', ''98'', ''drug'']],
         Print ''aggregating cells'',
         AggregateProfiles example_single_cells ''out/PlateA.csv.gz'' ''gzip''])"
proof -
  have "SingleCells example_world sc = None" for sc
    by (simp add: example_world_def)
  moreover have "write_outputs example_world sc example_platemap ''out/PlateA_counts.tsv''
          ''out/PlateA.csv.gz''
        = (Inr (),
           [Print ''Counting cells within each well'',
            Print ''Saving cell counts in: out/PlateA_counts.tsv'',
            ToCsv ''out/PlateA_counts.tsv'' (CHR 0x09)
              [[''Image_Metadata_Well'', ''cell_count'', ''treatment''],
               [''A01'', ''120'', ''DMSO''], [''A02'', ''98'', ''drug'']],
            Print ''aggregating cells'',
            AggregateProfiles sc ''out/PlateA.csv.gz'' ''gzip''])" for sc
    by (simp add: write_outputs_def example_world_def example_cell_count_output
          to_csv_header_no_index)
  moreover have "\<lparr>sql_url = ''sqlite:///data/PlateA.sqlite'', kwargs = kwargs example_single_cells\<rparr>
                   = example_single_cells"
    by (simp add: example_single_cells_def)
  ultimately show ?thesis
    by (simp add: aggregate_def aggregate_from_config_def example_load_config
          example_load_platemap example_kwargs)
qed

lemma example_csv_written:
  "ToCsv ''out/PlateA_counts.tsv'' (CHR 0x09)
      [[''Image_Metadata_Well'', ''cell_count'', ''treatment''],
       [''A01'', ''120'', ''DMSO''], [''A02'', ''98'', ''drug'']]
     \<in> set (snd (aggregate example_world ''data/PlateA.sqlite'' ''metadata''
                    ''barcode_platemap.csv'' ''out/PlateA_counts.tsv'' ''out/PlateA.csv.gz''
                    ''configs/aggregate.yaml''))"
  by (simp add: example_aggregate)

subsection \<open>The join\<close>

text \<open>
  C2, as the code has it. The cell counts are combined with the platemap by the default
  join of \<open>merge\<close>, an inner join on \<open>Image_Metadata_Well\<close> (left) and \<open>well_position\<close>
  (right): the merged rows are, for every row of the cell counts in order, that row
  followed by each platemap row of the same well position; a row whose well no platemap
  row has contributes nothing. The drop that follows keeps the number of rows.
\<close>

theorem cell_counts_inner_joined:
  assumes "cell_count_output cc pm = Inr out"
  shows "\<exists>m. df_merge cc pm ''Image_Metadata_Well'' ''well_position'' = Inr m
           \<and> df_drop m [''WellRow'', ''WellCol'', ''well_position''] = Inr out
           \<and> rows m = concat (map (\<lambda>l. map (\<lambda>r. l @ r)
                                 (filter (\<lambda>r. cell_at (columns pm) r ''well_position''
                                              = cell_at (columns cc) l ''Image_Metadata_Well'')
                                         (rows pm)))
                               (rows cc))
           \<and> set (rows m) = {l @ r | l r. l \<in> set (rows cc) \<and> r \<in> set (rows pm)
                                \<and> cell_at (columns pm) r ''well_position''
                                    = cell_at (columns cc) l ''Image_Metadata_Well''}
           \<and> length (rows out) = length (rows m)"
proof -
  from assms obtain m where
    m: "df_merge cc pm ''Image_Metadata_Well'' ''well_position'' = Inr m" and
    d: "df_drop m [''WellRow'', ''WellCol'', ''well_position''] = Inr out"
    by (auto simp: cell_count_output_def split: sum.splits)
  have r: "rows m = merge_rows (columns cc) ''Image_Metadata_Well'' (columns pm) ''well_position''
                      (rows cc) (rows pm)"
    using df_merge_result(1)[OF m] .
  have "set (rows m) = {l @ r | l r. l \<in> set (rows cc) \<and> r \<in> set (rows pm)
                                \<and> cell_at (columns pm) r ''well_position''
                                    = cell_at (columns cc) l ''Image_Metadata_Well''}"
    unfolding r by (rule set_merge_rows)
  moreover have "length (rows out) = length (rows m)"
    using df_drop_result(2)[OF d] .
  ultimately show ?thesis
    using m d r unfolding merge_rows_def by blast
qed

theorem cell_counts_inner_joined_witness:
  "cell_count_output example_counts example_platemap
     = Inr \<lparr>columns = [''Image_Metadata_Well'', ''cell_count'', ''treatment''],
             rows = [[''A01'', ''120'', ''DMSO''], [''A02'', ''98'', ''drug'']]\<rparr>
   \<and> (\<exists>m. df_merge example_counts example_platemap ''Image_Metadata_Well'' ''well_position'' = Inr m
          \<and> length (rows m) = 2)"
  using cell_counts_inner_joined[OF example_cell_count_output] example_cell_count_output
  by auto

text \<open>
  The claim as the specification words it, a left join that keeps every row of the cell
  counts, fails on a well the platemap lacks: the row of \<open>B07\<close> is in the cell counts and
  in neither the merged table nor the output.
\<close>

theorem unmatched_well_is_dropped:
  "[''B07'', ''3''] \<in> set (rows unmatched_counts)
   \<and> df_merge unmatched_counts example_platemap ''Image_Metadata_Well'' ''well_position''
       = Inr \<lparr>columns = [''Image_Metadata_Well'', ''cell_count'', ''well_position'', ''WellRow'',
                          ''WellCol'', ''treatment''],
               rows = [[''A01'', ''120'', ''A01'', ''A'', ''1'', ''DMSO'']]\<rparr>
   \<and> cell_count_output unmatched_counts example_platemap
       = Inr \<lparr>columns = [''Image_Metadata_Well'', ''cell_count'', ''treatment''],
               rows = [[''A01'', ''120'', ''DMSO'']]\<rparr>"
  by (simp add: unmatched_counts_def example_platemap_def cell_count_output_def df_merge_def
        merge_rows_def suffixed_def cell_at_def df_drop_def)

subsection \<open>The columns and the format of the cell-count file\<close>

text \<open>
  C3. Whatever cell-count file the job writes is the table of this very run: the merge
  and drop \<open>out\<close> of the cell counts \<open>cc\<close> that the capability answered for this plate
  and of the platemap \<open>pm\<close> that the job loaded. The file goes to \<open>cell_count_out\<close> with
  the tab as delimiter; its first record is the header, the labels of \<open>out\<close>, and the
  records after it are the rows of \<open>out\<close> with no index field in front; and none of
  \<open>WellRow\<close>, \<open>WellCol\<close>, \<open>well_position\<close> is among the labels. This holds for every
  platemap; \<open>cell_count_output_succeeds\<close> and the evaluation below show that a platemap
  with the three columns does give a file.
\<close>

theorem cell_count_file_has_no_platemap_keys:
  assumes "ToCsv p sep recs \<in> set (snd (aggregate w sql_file metadata_dir barcode_path
                                            cell_count_out aggregate_file_out config))"
  shows "\<exists>cfg pm kw cc out.
           load_config w config = Inr cfg
         \<and> load_platemap w sql_file metadata_dir barcode_path = Inr pm
         \<and> single_cells_kwargs cfg = Inr kw
         \<and> count_cells w \<lparr>sql_url = ''sqlite:///'' @ sql_file, kwargs = kw\<rparr> = Inr cc
         \<and> cell_count_output cc pm = Inr out
         \<and> p = cell_count_out \<and> sep = CHR 0x09
         \<and> recs = columns out # rows out
         \<and> ''WellRow'' \<notin> set (columns out) \<and> ''WellCol'' \<notin> set (columns out)
         \<and> ''well_position'' \<notin> set (columns out)"
proof -
  from aggregate_writes_cell_counts[OF assms] obtain cfg pm kw cc out where
    run: "load_config w config = Inr cfg"
         "load_platemap w sql_file metadata_dir barcode_path = Inr pm"
         "single_cells_kwargs cfg = Inr kw"
         "count_cells w \<lparr>sql_url = ''sqlite:///'' @ sql_file, kwargs = kw\<rparr> = Inr cc" and
    out: "cell_count_output cc pm = Inr out" and
    p: "p = cell_count_out" "sep = CHR 0x09" and
    recs: "recs = to_csv out True False"
    by blast
  from out obtain m where d: "df_drop m [''WellRow'', ''WellCol'', ''well_position''] = Inr out"
    by (auto simp: cell_count_output_def split: sum.splits)
  have cols: "columns out = filter (\<lambda>c. c \<notin> set [''WellRow'', ''WellCol'', ''well_position''])
                              (columns m)"
    using df_drop_result(1)[OF d] .
  have banned: "''WellRow'' \<notin> set (columns out)" "''WellCol'' \<notin> set (columns out)"
    "''well_position'' \<notin> set (columns out)"
    unfolding cols by simp_all
  have r: "recs = columns out # rows out"
    using recs by (simp add: to_csv_header_no_index)
  show ?thesis
    using run out p r banned by blast
qed

theorem cell_count_file_has_no_platemap_keys_witness:
  "ToCsv ''out/PlateA_counts.tsv'' (CHR 0x09)
      [[''Image_Metadata_Well'', ''cell_count'', ''treatment''],
       [''A01'', ''120'', ''DMSO''], [''A02'', ''98'', ''drug'']]
     \<in> set (snd (aggregate example_world ''data/PlateA.sqlite'' ''metadata''
                    ''barcode_platemap.csv'' ''out/PlateA_counts.tsv'' ''out/PlateA.csv.gz''
                    ''configs/aggregate.yaml''))
   \<and> load_platemap example_world ''data/PlateA.sqlite'' ''metadata'' ''barcode_platemap.csv''
       = Inr example_platemap
   \<and> count_cells example_world example_single_cells = Inr example_counts
   \<and> (\<exists>out. cell_count_output example_counts example_platemap = Inr out
          \<and> [[''Image_Metadata_Well'', ''cell_count'', ''treatment''],
              [''A01'', ''120'', ''DMSO''], [''A02'', ''98'', ''drug'']]
             = columns out # rows out
          \<and> ''WellRow'' \<notin> set (columns out) \<and> ''WellCol'' \<notin> set (columns out)
          \<and> ''well_position'' \<notin> set (columns out))"
proof -
  have c: "count_cells example_world sc = Inr example_counts" for sc
    by (simp add: example_world_def)
  from cell_count_file_has_no_platemap_keys[OF example_csv_written]
  obtain cfg pm kw cc out where
    run: "load_platemap example_world ''data/PlateA.sqlite'' ''metadata''
            ''barcode_platemap.csv'' = Inr pm"
         "count_cells example_world
            \<lparr>sql_url = ''sqlite:///'' @ ''data/PlateA.sqlite'', kwargs = kw\<rparr> = Inr cc" and
    out: "cell_count_output cc pm = Inr out" and
    recs: "[[''Image_Metadata_Well'', ''cell_count'', ''treatment''],
            [''A01'', ''120'', ''DMSO''], [''A02'', ''98'', ''drug'']]
           = columns out # rows out" and
    banned: "''WellRow'' \<notin> set (columns out)" "''WellCol'' \<notin> set (columns out)"
            "''well_position'' \<notin> set (columns out)"
    by blast
  have "pm = example_platemap"
    using run(1) by (simp add: example_load_platemap)
  moreover have "cc = example_counts"
    using run(2) by (simp add: c)
  ultimately have "cell_count_output example_counts example_platemap = Inr out"
    using out by simp
  then show ?thesis
    using example_csv_written example_load_platemap c[of example_single_cells] recs banned
    by blast
qed

subsection \<open>The number of rows\<close>

text \<open>
  C8. When the job writes the cell-count file and every row of the cell counts answered by
  the capability has exactly one platemap row of the same well position, the table
  written has as many rows as the cell counts (the file has one record more, the header).
\<close>

theorem one_to_one_join_keeps_row_count:
  assumes "ToCsv p sep recs \<in> set (snd (aggregate w sql_file metadata_dir barcode_path
                                            cell_count_out aggregate_file_out config))"
      and "load_config w config = Inr cfg"
      and "load_platemap w sql_file metadata_dir barcode_path = Inr pm"
      and "single_cells_kwargs cfg = Inr kw"
      and "count_cells w \<lparr>sql_url = ''sqlite:///'' @ sql_file, kwargs = kw\<rparr> = Inr cc"
      and "\<forall>l \<in> set (rows cc).
             length (filter (\<lambda>r. cell_at (columns pm) r ''well_position''
                                  = cell_at (columns cc) l ''Image_Metadata_Well'')
                            (rows pm)) = 1"
  shows "\<exists>out. cell_count_output cc pm = Inr out \<and> recs = columns out # rows out
           \<and> length (rows out) = length (rows cc)"
proof -
  from aggregate_writes_cell_counts[OF assms(1)] assms(2-5) obtain out where
    out: "cell_count_output cc pm = Inr out" and recs: "recs = to_csv out True False"
    by auto
  from out obtain m where
    m: "df_merge cc pm ''Image_Metadata_Well'' ''well_position'' = Inr m" and
    d: "df_drop m [''WellRow'', ''WellCol'', ''well_position''] = Inr out"
    by (auto simp: cell_count_output_def split: sum.splits)
  have "length (rows m) = length (rows cc)"
    unfolding df_merge_result(1)[OF m]
    by (rule length_merge_rows_one_to_one) (rule assms(6))
  then have "length (rows out) = length (rows cc)"
    using df_drop_result(2)[OF d] by simp
  then show ?thesis
    using out recs by (simp add: to_csv_header_no_index)
qed

theorem one_to_one_join_keeps_row_count_witness:
  "ToCsv ''out/PlateA_counts.tsv'' (CHR 0x09)
      [[''Image_Metadata_Well'', ''cell_count'', ''treatment''],
       [''A01'', ''120'', ''DMSO''], [''A02'', ''98'', ''drug'']]
     \<in> set (snd (aggregate example_world ''data/PlateA.sqlite'' ''metadata''
                    ''barcode_platemap.csv'' ''out/PlateA_counts.tsv'' ''out/PlateA.csv.gz''
                    ''configs/aggregate.yaml''))
   \<and> length (filter (\<lambda>r. cell_at (columns example_platemap) r ''well_position'' = ''A01'')
                     (rows example_platemap)) = 1
   \<and> length (filter (\<lambda>r. cell_at (columns example_platemap) r ''well_position'' = ''A02'')
                     (rows example_platemap)) = 1
   \<and> length (rows example_counts) = 2
   \<and> (\<exists>out. cell_count_output example_counts example_platemap = Inr out
          \<and> length (rows out) = 2)"
proof -
  have c: "count_cells example_world
             \<lparr>sql_url = ''sqlite:///'' @ ''data/PlateA.sqlite'',
              kwargs = kwargs example_single_cells\<rparr> = Inr example_counts"
    by (simp add: example_world_def)
  have one: "\<forall>l \<in> set (rows example_counts).
             length (filter (\<lambda>r. cell_at (columns example_platemap) r ''well_position''
                                  = cell_at (columns example_counts) l ''Image_Metadata_Well'')
                            (rows example_platemap)) = 1"
    by (simp add: example_counts_def example_platemap_def cell_at_def)
  have n: "length (rows example_counts) = 2"
    by (simp add: example_counts_def)
  have f: "length (filter (\<lambda>r. cell_at (columns example_platemap) r ''well_position'' = ''A01'')
                     (rows example_platemap)) = 1"
     "length (filter (\<lambda>r. cell_at (columns example_platemap) r ''well_position'' = ''A02'')
                     (rows example_platemap)) = 1"
    by (simp_all add: example_platemap_def cell_at_def)
  show ?thesis
    using one_to_one_join_keeps_row_count[OF example_csv_written example_load_config
            example_load_platemap example_kwargs c one]
      example_csv_written n f by auto
qed

section \<open>Loading the configuration\<close>



text \<open>Every keyword argument read from the configuration is the section's value under its key.\<close>

lemma config_kwargs_values:
  assumes "config_kwargs cfg ks = Inr kvs"
  shows "map fst kvs = ks \<and> list_all (\<lambda>kv. py_getitem cfg (fst kv) = Inr (snd kv)) kvs"
  using assms
  by (induction ks arbitrary: kvs) (auto split: sum.splits)

lemma single_cells_kwargs_values:
  assumes "single_cells_kwargs cfg = Inr kw"
  shows "list_all (\<lambda>kv. kv = (''fields_of_view_feature'', YStr ''Image_Metadata_Well'')
                        \<or> py_getitem cfg (fst kv) = Inr (snd kv)) kw"
proof -
  from assms obtain a b where
    a: "config_kwargs cfg config_keys = Inr a" and
    b: "config_kwargs cfg [''object_feature''] = Inr b" and
    kw: "kw = a @ [(''fields_of_view_feature'', YStr ''Image_Metadata_Well'')] @ b"
    unfolding single_cells_kwargs_def
    by (cases "config_kwargs cfg config_keys"; cases "config_kwargs cfg [''object_feature'']")
       (simp_all del: config_kwargs.simps)
  have "list_all (\<lambda>kv. py_getitem cfg (fst kv) = Inr (snd kv)) a"
    and "list_all (\<lambda>kv. py_getitem cfg (fst kv) = Inr (snd kv)) b"
    using config_kwargs_values[OF a] config_kwargs_values[OF b] by simp_all
  then show ?thesis
    unfolding kw by (auto simp: list_all_iff)
qed



section \<open>The barcode lookup in the job\<close>

text \<open>
  What the job does with the rows that line 52 selects, the rows whose barcode is an
  element of the list \<open>plate\<close>: with none selected, \<open>values[0]\<close> raises \<open>IndexError\<close>;
  nothing catches it, so it is the result of the job, which has had no effect.
\<close>

lemma no_selected_row_raises:
  assumes "load_config w config = Inr cfg"
      and "read_csv w barcode_path = Inr df"
      and "''Assay_Plate_Barcode'' \<in> set (columns df)"
      and "''Plate_Map_Name'' \<in> set (columns df)"
      and "\<forall>r \<in> set (rows df).
             cell_at (columns df) r ''Assay_Plate_Barcode'' \<notin> set (plate_of sql_file)"
  shows "aggregate w sql_file metadata_dir barcode_path cell_count_out aggregate_file_out config
           = (Inl IndexError, [])"
proof -
  have "find (\<lambda>r. cell_at (columns df) r ''Assay_Plate_Barcode'' \<in> set (plate_of sql_file))
             (rows df) = None"
    using assms(5) by (simp add: find_None_iff)
  then have "lookup_platemap df sql_file = Inl IndexError"
    by (simp add: lookup_platemap_first[OF assms(3,4)])
  then show ?thesis
    using assms(1,2) by (simp add: aggregate_def aggregate_from_config_def load_platemap_def)
qed

lemma extension_world_load_config:
  "load_config extension_world ''configs/aggregate.yaml'' = Inr example_params"
  by (simp add: load_config_def extension_world_def example_world_def example_doc_def
        absolute_def parse_path_def path_root_def path_str_def)

lemma swapped_world_load_config:
  "load_config swapped_world ''configs/aggregate.yaml'' = Inr example_params"
  by (simp add: load_config_def swapped_world_def example_world_def example_doc_def
        absolute_def parse_path_def path_root_def path_str_def)

text \<open>
  C6. When zero rows of the barcode table match the plate identifier, the job fails with
  an \<open>IndexError\<close> before any output is written. The code selects with the list of
  line 50 (the slip of C1), so a row named after the file extension is selected for a
  plate it does not belong to: for \<open>data/PlateB.sqlite\<close> and a barcode table whose only
  row is \<open>(sqlite, MapX)\<close>, no row has the barcode \<open>PlateB\<close>, yet the job raises nothing,
  loads the platemap \<open>MapX\<close> and writes both outputs.
\<close>

theorem extension_row_selected_without_match:
  "plate_of ''data/PlateB.sqlite'' = [''PlateB'', ''sqlite'']
   \<and> filter (\<lambda>r. cell_at (columns extension_barcodes) r ''Assay_Plate_Barcode'' = ''PlateB'')
             (rows extension_barcodes) = []
   \<and> aggregate extension_world ''data/PlateB.sqlite'' ''metadata'' ''barcode_platemap.csv''
        ''out/PlateB_counts.tsv'' ''out/PlateB.csv.gz'' ''configs/aggregate.yaml''
       = (Inr (),
          [Print ''Counting cells within each well'',
           Print ''Saving cell counts in: out/PlateB_counts.tsv'',
           ToCsv ''out/PlateB_counts.tsv'' (CHR 0x09)
             [[''Image_Metadata_Well'', ''cell_count'', ''treatment''],
              [''A01'', ''120'', ''DMSO''], [''A02'', ''98'', ''drug'']],
           Print ''aggregating cells'',
           AggregateProfiles
             \<lparr>sql_url = ''sqlite:///data/PlateB.sqlite'', kwargs = kwargs example_single_cells\<rparr>
             ''out/PlateB.csv.gz'' ''gzip''])"
proof -
  have p: "plate_of ''data/PlateB.sqlite'' = [''PlateB'', ''sqlite'']"
    by (simp add: plate_of_def rsplit1_def basename_def)
  have f: "filter (\<lambda>r. cell_at (columns extension_barcodes) r ''Assay_Plate_Barcode'' = ''PlateB'')
             (rows extension_barcodes) = []"
    by (simp add: extension_barcodes_def cell_at_def)
  have l: "load_platemap extension_world ''data/PlateB.sqlite'' ''metadata''
             ''barcode_platemap.csv'' = Inr example_platemap"
    by (simp add: load_platemap_def extension_world_def extension_barcodes_def
          lookup_platemap_def select_barcode_rows_def query_eq_local_def p cell_at_def
          getattr_values_def values_first_def platemap_file_of_def)
  have s: "SingleCells extension_world sc = None" for sc
    by (simp add: extension_world_def example_world_def)
  have w: "write_outputs extension_world sc example_platemap ''out/PlateB_counts.tsv''
             ''out/PlateB.csv.gz''
           = (Inr (),
              [Print ''Counting cells within each well'',
               Print ''Saving cell counts in: out/PlateB_counts.tsv'',
               ToCsv ''out/PlateB_counts.tsv'' (CHR 0x09)
                 [[''Image_Metadata_Well'', ''cell_count'', ''treatment''],
                  [''A01'', ''120'', ''DMSO''], [''A02'', ''98'', ''drug'']],
               Print ''aggregating cells'',
               AggregateProfiles sc ''out/PlateB.csv.gz'' ''gzip''])" for sc
    by (simp add: write_outputs_def extension_world_def example_world_def
          example_cell_count_output to_csv_header_no_index)
  have a: "aggregate extension_world ''data/PlateB.sqlite'' ''metadata'' ''barcode_platemap.csv''
        ''out/PlateB_counts.tsv'' ''out/PlateB.csv.gz'' ''configs/aggregate.yaml''
       = (Inr (),
          [Print ''Counting cells within each well'',
           Print ''Saving cell counts in: out/PlateB_counts.tsv'',
           ToCsv ''out/PlateB_counts.tsv'' (CHR 0x09)
             [[''Image_Metadata_Well'', ''cell_count'', ''treatment''],
              [''A01'', ''120'', ''DMSO''], [''A02'', ''98'', ''drug'']],
           Print ''aggregating cells'',
           AggregateProfiles
             \<lparr>sql_url = ''sqlite:///data/PlateB.sqlite'', kwargs = kwargs example_single_cells\<rparr>
             ''out/PlateB.csv.gz'' ''gzip''])"
    by (simp add: aggregate_def aggregate_from_config_def extension_world_load_config l
          example_kwargs s w)
  show ?thesis
    by (rule conjI[OF p conjI[OF f a]])
qed

text \<open>
  The platemap file of a name that does not begin with a slash, and what the job does
  with the first row that line 52 selects: its \<open>Plate_Map_Name\<close> is the platemap, the
  file joined from it is read next, and a failure to read it is the result of the job.
\<close>

lemma platemap_file_of_plain_name:
  assumes "take 1 platemap \<noteq> ''/''"
  shows "platemap_file_of metadata_dir platemap =
           (if metadata_dir = [] \<or> last metadata_dir = CHR ''/'' then metadata_dir
            else metadata_dir @ ''/'')
           @ ''platemap/'' @ platemap @ ''.csv''"
proof -
  have "take 1 (platemap @ ''.csv'') \<noteq> ''/''"
    using assms by (cases platemap) simp_all
  then show ?thesis
    by (simp add: platemap_file_of_def)
qed

lemma platemap_of_first_selected_row:
  assumes "load_config w config = Inr cfg"
      and "read_csv w barcode_path = Inr df"
      and "''Assay_Plate_Barcode'' \<in> set (columns df)"
      and "''Plate_Map_Name'' \<in> set (columns df)"
      and "find (\<lambda>r. cell_at (columns df) r ''Assay_Plate_Barcode'' \<in> set (plate_of sql_file))
                (rows df) = Some r"
      and "platemap = cell_at (columns df) r ''Plate_Map_Name''"
      and "platemap_file = os_path_join metadata_dir [''platemap'', platemap @ ''.csv'']"
  shows "lookup_platemap df sql_file = Inr platemap"
    and "load_platemap w sql_file metadata_dir barcode_path = read_csv w platemap_file"
    and "read_csv w platemap_file = Inl e
           \<Longrightarrow> aggregate w sql_file metadata_dir barcode_path cell_count_out aggregate_file_out
                 config = (Inl e, [])"
proof -
  show l: "lookup_platemap df sql_file = Inr platemap"
    using assms(5,6) by (simp add: lookup_platemap_first[OF assms(3,4)])
  have f: "platemap_file = platemap_file_of metadata_dir platemap"
    using assms(7) by (simp add: platemap_file_of_def)
  show p: "load_platemap w sql_file metadata_dir barcode_path = read_csv w platemap_file"
    using assms(2) l f by (simp add: load_platemap_def)
  show "aggregate w sql_file metadata_dir barcode_path cell_count_out aggregate_file_out config
             = (Inl e, [])" if "read_csv w platemap_file = Inl e"
    using that assms(1) p by (simp add: aggregate_def aggregate_from_config_def)
qed

text \<open>
  C7. When one or more barcode rows match the plate identifier, the job takes the
  \<open>Plate_Map_Name\<close> of the first of them, joins \<open>metadata_dir\<close>, \<open>platemap\<close> and the
  name with \<open>.csv\<close>, and loads that file. The code takes the first row selected with the
  list of line 50 (the slip of C1), which need not be a row of the plate: for
  \<open>data/PlateA.sqlite\<close> and the barcode rows \<open>(sqlite, MapZ)\<close>, \<open>(PlateA, MapX)\<close> the
  first row whose barcode is \<open>PlateA\<close> names \<open>MapX\<close>, whose file is present, yet the job
  asks for the file of \<open>MapZ\<close> and fails on its absence.
\<close>

theorem extension_row_platemap_is_loaded:
  "find (\<lambda>r. cell_at (columns swapped_barcodes) r ''Assay_Plate_Barcode'' = ''PlateA'')
        (rows swapped_barcodes) = Some [''PlateA'', ''MapX'']
   \<and> read_csv swapped_world (os_path_join ''metadata'' [''platemap'', ''MapX'' @ ''.csv''])
       = Inr example_platemap
   \<and> aggregate swapped_world ''data/PlateA.sqlite'' ''metadata'' ''barcode_platemap.csv''
        ''out/PlateA_counts.tsv'' ''out/PlateA.csv.gz'' ''configs/aggregate.yaml''
       = (Inl (FileNotFoundError ''metadata/platemap/MapZ.csv''), [])"
proof -
  have f: "find (\<lambda>r. cell_at (columns swapped_barcodes) r ''Assay_Plate_Barcode'' = ''PlateA'')
        (rows swapped_barcodes) = Some [''PlateA'', ''MapX'']"
    by (simp add: swapped_barcodes_def cell_at_def)
  have r: "read_csv swapped_world (os_path_join ''metadata'' [''platemap'', ''MapX'' @ ''.csv''])
       = Inr example_platemap"
    by (simp add: swapped_world_def)
  have l: "load_platemap swapped_world ''data/PlateA.sqlite'' ''metadata''
             ''barcode_platemap.csv'' = Inl (FileNotFoundError ''metadata/platemap/MapZ.csv'')"
    by (simp add: load_platemap_def swapped_world_def swapped_barcodes_def
          lookup_platemap_def select_barcode_rows_def query_eq_local_def plate_of_def
          rsplit1_def basename_def cell_at_def getattr_values_def values_first_def
          platemap_file_of_def)
  have a: "aggregate swapped_world ''data/PlateA.sqlite'' ''metadata'' ''barcode_platemap.csv''
        ''out/PlateA_counts.tsv'' ''out/PlateA.csv.gz'' ''configs/aggregate.yaml''
       = (Inl (FileNotFoundError ''metadata/platemap/MapZ.csv''), [])"
    by (simp add: aggregate_def aggregate_from_config_def swapped_world_load_config l)
  show ?thesis
    by (rule conjI[OF f conjI[OF r a]])
qed

section \<open>The dispatcher\<close>

lemma zip6_Repeat:
  "zip6 xs (Repeat m) (Repeat b) ys zs (Repeat c)
     = map (\<lambda>(x, y, z). (x, m, b, y, z, c)) (zip xs (zip ys zs))"
proof (induction xs arbitrary: ys zs)
  case Nil
  then show ?case by simp
next
  case (Cons x xs)
  show ?case
  proof (cases ys)
    case Nil
    then show ?thesis by simp
  next
    case ys: (Cons y ys')
    show ?thesis
    proof (cases zs)
      case Nil
      then show ?thesis using ys by simp
    next
      case (Cons z zs')
      then show ?thesis using ys Cons.IH by simp
    qed
  qed
qed

lemma inputs_eq_map:
  "inputs sm = map (\<lambda>(s, c, a). (s, metadata sm, barcodes sm, c, a, aggregate_config sm))
                   (zip (sql_files sm) (zip (cell_counts sm) (aggregate_profile sm)))"
  by (simp add: inputs_def zip6_Repeat)

text \<open>
  C4. With \<open>N\<close> the number of job tuples and \<open>W\<close> the requested worker count, the count
  given to the pool is \<open>min W N\<close>; a warning is printed exactly when \<open>W > N\<close>, and it
  states \<open>W\<close> and \<open>N\<close>.
\<close>

theorem worker_count_is_clamped:
  "processes (main sm) = min (threads sm) (int (length (inputs sm)))
   \<and> (printed (main sm) \<noteq> None) = (threads sm > int (length (inputs sm)))
   \<and> printed (main sm) =
       (if threads sm > int (length (inputs sm))
        then Some (''WARNING: number of specified cores ('' @ show_int (threads sm)
                   @ '') exceeds number of inputs ('' @ show_nat (length (inputs sm))
                   @ ''), defaulting to '' @ show_nat (length (inputs sm)))
        else None)"
  by (simp add: main_def clamp_cores_def warning_text_def)

theorem worker_count_is_clamped_witness:
  "length (inputs five_plates) = 5 \<and> threads five_plates = 10
   \<and> processes (main five_plates) = 5
   \<and> printed (main five_plates) =
       Some ''WARNING: number of specified cores (10) exceeds number of inputs (5), defaulting to 5''"
proof -
  have n: "length (inputs five_plates) = 5" "threads five_plates = 10"
    by (simp_all add: inputs_eq_map five_plates_def)
  have "show_int 10 = ''10''" "show_nat 5 = ''5''"
    by code_simp+
  then show ?thesis
    using worker_count_is_clamped[of five_plates] n by simp
qed

text \<open>
  C9. The job tuples built are as many as the shortest of the three per-plate lists;
  they pair the lists position by position with the three shared paths; entries beyond
  that length change nothing (the tuples are those of the truncated lists) and raise
  nothing; and once the pool exists (a worker count of at least one) those tuples, all of
  them, are what is handed to \<open>starmap\<close>.
\<close>

theorem inputs_truncate_to_shortest:
  "length (inputs sm)
     = min (length (sql_files sm)) (min (length (cell_counts sm)) (length (aggregate_profile sm)))
   \<and> inputs sm = map (\<lambda>(s, c, a). (s, metadata sm, barcodes sm, c, a, aggregate_config sm))
                     (zip (sql_files sm) (zip (cell_counts sm) (aggregate_profile sm)))
   \<and> inputs sm = inputs (sm\<lparr>sql_files := take (length (inputs sm)) (sql_files sm),
                             cell_counts := take (length (inputs sm)) (cell_counts sm),
                             aggregate_profile := take (length (inputs sm)) (aggregate_profile sm)\<rparr>)
   \<and> submitted (main sm) =
       (if min (threads sm) (int (length (inputs sm))) < 1
        then Inl (ValueError ''Number of processes must be at least 1'')
        else Inr (inputs sm))"
proof -
  let ?z = "zip (sql_files sm) (zip (cell_counts sm) (aggregate_profile sm))"
  have len: "length (inputs sm) = length ?z"
    by (simp add: inputs_eq_map)
  have "zip (take (length ?z) (sql_files sm))
            (zip (take (length ?z) (cell_counts sm)) (take (length ?z) (aggregate_profile sm)))
        = take (length ?z) ?z"
    by (simp only: take_zip)
  then have trunc: "inputs sm = inputs (sm\<lparr>sql_files := take (length (inputs sm)) (sql_files sm),
                             cell_counts := take (length (inputs sm)) (cell_counts sm),
                             aggregate_profile := take (length (inputs sm)) (aggregate_profile sm)\<rparr>)"
    unfolding len by (simp add: inputs_eq_map)
  have sub: "submitted (main sm) =
       (if min (threads sm) (int (length (inputs sm))) < 1
        then Inl (ValueError ''Number of processes must be at least 1'')
        else Inr (inputs sm))"
    by (simp add: main_def clamp_cores_def min_def)
  have n: "length (inputs sm)
     = min (length (sql_files sm)) (min (length (cell_counts sm)) (length (aggregate_profile sm)))"
    by (simp add: inputs_eq_map)
  show ?thesis
    by (rule conjI[OF n conjI[OF inputs_eq_map conjI[OF trunc sub]]])
qed

theorem inputs_truncate_to_shortest_witness:
  "inputs uneven_plates
     = [(''p1.sqlite'', ''metadata'', ''barcode_platemap.csv'', ''p1.tsv'', ''p1.gz'',
         ''configs/aggregate.yaml''),
        (''p2.sqlite'', ''metadata'', ''barcode_platemap.csv'', ''p2.tsv'', ''p2.gz'',
         ''configs/aggregate.yaml'')]
   \<and> length (inputs uneven_plates) = 2
   \<and> submitted (main uneven_plates) = Inr (inputs uneven_plates)"
  using inputs_truncate_to_shortest[of uneven_plates]
  by (simp add: uneven_plates_def)

end
